theory Spec2Isabelle
  imports Complex_Main
begin

section \<open>Multi-camera testing distance range calculator\<close>

text \<open>
  A shallow embedding of \<^verbatim>\<open>lens_to_chart_distance.py\<close>. The script is one pass: it reads
  the environment widgets, runs the loop body once per camera, reduces the per-camera
  ranges, and displays the result.

  Numbers: Python's \<^verbatim>\<open>float\<close> is read as \<^typ>\<open>real\<close>, so rounding, overflow and
  underflow of IEEE doubles are outside this model; \<^verbatim>\<open>float("inf")\<close>, which the script
  creates itself, is a value of its own. Python's \<^verbatim>\<open>int\<close> is \<^typ>\<open>int\<close>. A division
  whose divisor is not a non-zero literal goes through \<open>py_div\<close>, which raises
  \<^verbatim>\<open>ZeroDivisionError\<close> as Python does; \<^verbatim>\<open>max\<close>/\<^verbatim>\<open>min\<close> over an empty sequence raise
  \<^verbatim>\<open>ValueError\<close>. \<^verbatim>\<open>math.tan\<close>, \<^verbatim>\<open>math.atan\<close> and \<^verbatim>\<open>math.hypot\<close> are the real
  functions; HOL's \<open>tan\<close> is \<open>0\<close> at the poles, where the mathematical tangent is
  undefined and the floating-point one is large, so statements about field-of-view angles
  at a multiple of 180 degrees are statements about the model only.
\<close>

subsection \<open>Exceptions as values\<close>

datatype py_error = ZeroDivisionError | ValueError

definition bind_err :: "py_error + 'a \<Rightarrow> ('a \<Rightarrow> py_error + 'b) \<Rightarrow> py_error + 'b" where
  "bind_err m k = (case m of Inl e \<Rightarrow> Inl e | Inr x \<Rightarrow> k x)"

definition py_div :: "real \<Rightarrow> real \<Rightarrow> py_error + real" where
  "py_div a b = (if b = 0 then Inl ZeroDivisionError else Inr (a / b))"

text \<open>\<^verbatim>\<open>math.degrees\<close>, \<^verbatim>\<open>math.radians\<close> and \<^verbatim>\<open>math.hypot\<close>.\<close>

definition degrees :: "real \<Rightarrow> real" where
  "degrees x = x * 180 / pi"

definition radians :: "real \<Rightarrow> real" where
  "radians x = x * pi / 180"

definition hypot :: "real \<Rightarrow> real \<Rightarrow> real" where
  "hypot x y = sqrt (x\<^sup>2 + y\<^sup>2)"

subsection \<open>Sidebar: environment and chart settings (lines 19--49)\<close>

datatype chart_option = A4 | Letter | Legal | A3 | Ledger

fun chart_width_mm_map :: "chart_option \<Rightarrow> real" where
  "chart_width_mm_map A4 = 210"
| "chart_width_mm_map Letter = 216"
| "chart_width_mm_map Legal = 216"
| "chart_width_mm_map A3 = 297"
| "chart_width_mm_map Ledger = 279"

definition chart_width_cm :: "chart_option \<Rightarrow> real" where
  "chart_width_cm opt = chart_width_mm_map opt / 10"

definition PIXELS_PER_CM :: int where
  "PIXELS_PER_CM = 55"

subsection \<open>Sensor: width against pixel size (lines 61--76)\<close>

text \<open>The radio button chooses which of the two number inputs is read.\<close>

datatype sensor_input = SensorWidthMM real | PixelSizeUM real

text \<open>Returns \<open>(sensor_width_mm, pixel_size_um)\<close>.\<close>

fun sensor :: "int \<Rightarrow> sensor_input \<Rightarrow> py_error + (real \<times> real)" where
  "sensor h_pixels (SensorWidthMM sensor_width_mm) =
     bind_err (py_div sensor_width_mm (real_of_int h_pixels))
       (\<lambda>q. Inr (sensor_width_mm, q * 1000))"
| "sensor h_pixels (PixelSizeUM pixel_size_um) =
     Inr ((real_of_int h_pixels * pixel_size_um) / 1000, pixel_size_um)"

definition sensor_height_mm :: "int \<Rightarrow> real \<Rightarrow> real" where
  "sensor_height_mm v_pixels pixel_size_um = (real_of_int v_pixels * pixel_size_um) / 1000"

definition sensor_diag_mm :: "real \<Rightarrow> real \<Rightarrow> real" where
  "sensor_diag_mm sensor_width_mm sensor_height = hypot sensor_width_mm sensor_height"

subsection \<open>Lens: focal length against diagonal field of view (lines 79--90)\<close>

datatype lens_input = FocalLengthMM real | DiagonalFOVDeg real

text \<open>Returns \<open>(focal_length_mm, dfov_deg)\<close>. The conditional expressions test the
  truthiness of a float, which is \<open>x \<noteq> 0\<close>. This is the exact-arithmetic reading; the
  field-of-view branch is read once more with binary64 rounding further down.\<close>

fun lens :: "real \<Rightarrow> lens_input \<Rightarrow> py_error + (real \<times> real)" where
  "lens sensor_diag (FocalLengthMM focal_length_mm) =
     (if focal_length_mm \<noteq> 0
      then bind_err (py_div (sensor_diag / 2) focal_length_mm)
             (\<lambda>q. Inr (focal_length_mm, degrees (2 * arctan q)))
      else Inr (focal_length_mm, 0))"
| "lens sensor_diag (DiagonalFOVDeg dfov_deg) =
     (if dfov_deg \<noteq> 0
      then bind_err (py_div (sensor_diag / 2) (tan (radians (dfov_deg / 2))))
             (\<lambda>focal_length_mm. Inr (focal_length_mm, dfov_deg))
      else Inr (0, dfov_deg))"

subsection \<open>Minimum HFOV and distance (lines 93--96)\<close>

definition hfov_min_cm :: "int \<Rightarrow> real" where
  "hfov_min_cm h_pixels = real_of_int h_pixels / real_of_int PIXELS_PER_CM"

definition hfov_min_mm :: "int \<Rightarrow> real" where
  "hfov_min_mm h_pixels = hfov_min_cm h_pixels * 10"

definition mag_min :: "int \<Rightarrow> real \<Rightarrow> py_error + real" where
  "mag_min h_pixels sensor_width_mm =
     (if hfov_min_mm h_pixels \<noteq> 0 then py_div sensor_width_mm (hfov_min_mm h_pixels)
      else Inr 0)"

definition min_dist_mm :: "int \<Rightarrow> real \<Rightarrow> real \<Rightarrow> py_error + real" where
  "min_dist_mm h_pixels sensor_width_mm focal_length_mm =
     bind_err (mag_min h_pixels sensor_width_mm)
       (\<lambda>m. if m \<noteq> 0
            then bind_err (py_div focal_length_mm m) (\<lambda>q. Inr (q + focal_length_mm))
            else Inr 0)"

subsection \<open>Maximum HFOV and distance: chart, wall and room (lines 99--104)\<close>

text \<open>\<open>hfov_max_chart_cm\<close> is the only variable that can hold \<^verbatim>\<open>float("inf")\<close>.\<close>

datatype py_float = Finite real | Inf

definition hfov_max_chart_cm :: "real \<Rightarrow> real \<Rightarrow> py_error + py_float" where
  "hfov_max_chart_cm chart_w min_chart_fraction =
     (if min_chart_fraction \<noteq> 0
      then bind_err (py_div chart_w min_chart_fraction) (\<lambda>q. Inr (Finite q))
      else Inr Inf)"

text \<open>Python's two-argument \<^verbatim>\<open>min(a, b)\<close> returns \<open>b\<close> when \<open>b < a\<close> and \<open>a\<close>
  otherwise; nothing is below a finite number from infinity.\<close>

fun py_min :: "real \<Rightarrow> py_float \<Rightarrow> real" where
  "py_min a (Finite b) = (if b < a then b else a)"
| "py_min a Inf = a"

definition hfov_max_cm :: "real \<Rightarrow> real \<Rightarrow> real \<Rightarrow> py_error + real" where
  "hfov_max_cm chart_w wall_width min_chart_fraction =
     bind_err (hfov_max_chart_cm chart_w min_chart_fraction)
       (\<lambda>c. Inr (py_min wall_width c))"

definition hfov_max_mm :: "real \<Rightarrow> real \<Rightarrow> real \<Rightarrow> py_error + real" where
  "hfov_max_mm chart_w wall_width min_chart_fraction =
     bind_err (hfov_max_cm chart_w wall_width min_chart_fraction) (\<lambda>c. Inr (c * 10))"

definition mag_max :: "real \<Rightarrow> real \<Rightarrow> real \<Rightarrow> real \<Rightarrow> py_error + real" where
  "mag_max chart_w wall_width min_chart_fraction sensor_width_mm =
     bind_err (hfov_max_mm chart_w wall_width min_chart_fraction)
       (\<lambda>hf. if hf \<noteq> 0 then py_div sensor_width_mm hf else Inr 0)"

text \<open>Line 103: the far distance before the room cap.\<close>

definition max_dist_uncapped ::
  "real \<Rightarrow> real \<Rightarrow> real \<Rightarrow> real \<Rightarrow> real \<Rightarrow> py_error + real" where
  "max_dist_uncapped chart_w wall_width min_chart_fraction sensor_width_mm focal_length_mm =
     bind_err (mag_max chart_w wall_width min_chart_fraction sensor_width_mm)
       (\<lambda>m. if m \<noteq> 0
            then bind_err (py_div focal_length_mm m) (\<lambda>q. Inr (q + focal_length_mm))
            else Inr 0)"

text \<open>Line 104: the room cap, again the two-argument \<^verbatim>\<open>min\<close>.\<close>

definition max_dist_mm ::
  "real \<Rightarrow> real \<Rightarrow> real \<Rightarrow> real \<Rightarrow> real \<Rightarrow> real \<Rightarrow> py_error + real" where
  "max_dist_mm chart_w wall_width min_chart_fraction max_room_dist sensor_width_mm
       focal_length_mm =
     bind_err
       (max_dist_uncapped chart_w wall_width min_chart_fraction sensor_width_mm
          focal_length_mm)
       (\<lambda>d. Inr (py_min d (Finite (max_room_dist * 10))))"

subsection \<open>The loop over the cameras (lines 52--106)\<close>

record environment =
  chart :: chart_option
  wall_width_cm :: real
  max_room_dist_cm :: real
  min_chart_fraction :: real

record camera_spec =
  cam_name :: string
  h_pixels :: int
  v_pixels :: int
  sensor_mode :: sensor_input
  lens_mode :: lens_input

text \<open>The dictionary appended to \<^verbatim>\<open>cameras\<close>.\<close>

record camera_range =
  name :: string
  min_mm :: real
  max_mm :: real

text \<open>Everything one iteration derives, for the claims that speak about the derived
  sensor and lens values.\<close>

record derived =
  d_sensor_width_mm :: real
  d_pixel_size_um :: real
  d_sensor_height_mm :: real
  d_sensor_diag_mm :: real
  d_focal_length_mm :: real
  d_dfov_deg :: real
  d_range :: camera_range

definition camera_body :: "environment \<Rightarrow> camera_spec \<Rightarrow> py_error + derived" where
  "camera_body env c =
     bind_err (sensor (h_pixels c) (sensor_mode c)) (\<lambda>(sw, ps).
       let sh = sensor_height_mm (v_pixels c) ps;
           sd = sensor_diag_mm sw sh
       in bind_err (lens sd (lens_mode c)) (\<lambda>(fl, dfov).
            bind_err (min_dist_mm (h_pixels c) sw fl) (\<lambda>mn.
              bind_err (max_dist_mm (chart_width_cm (chart env)) (wall_width_cm env)
                          (min_chart_fraction env) (max_room_dist_cm env) sw fl) (\<lambda>mx.
                Inr \<lparr>d_sensor_width_mm = sw, d_pixel_size_um = ps,
                     d_sensor_height_mm = sh, d_sensor_diag_mm = sd,
                     d_focal_length_mm = fl, d_dfov_deg = dfov,
                     d_range = \<lparr>name = cam_name c, min_mm = mn, max_mm = mx\<rparr>\<rparr>))))"

definition camera :: "environment \<Rightarrow> camera_spec \<Rightarrow> py_error + camera_range" where
  "camera env c = bind_err (camera_body env c) (\<lambda>d. Inr (d_range d))"

text \<open>An exception in one iteration ends the script; otherwise the ranges are appended
  in order.\<close>

fun cameras :: "environment \<Rightarrow> camera_spec list \<Rightarrow> py_error + camera_range list" where
  "cameras env [] = Inr []"
| "cameras env (c # cs) =
     bind_err (camera env c) (\<lambda>r. bind_err (cameras env cs) (\<lambda>rs. Inr (r # rs)))"

subsection \<open>Intersection and display (lines 109--120)\<close>

text \<open>\<^verbatim>\<open>max\<close> and \<^verbatim>\<open>min\<close> over a generator: the first element starts the running
  value and a later one replaces it only when strictly greater (smaller).\<close>

fun py_max_seq :: "real list \<Rightarrow> py_error + real" where
  "py_max_seq [] = Inl ValueError"
| "py_max_seq (x # xs) = Inr (foldl (\<lambda>m y. if y > m then y else m) x xs)"

fun py_min_seq :: "real list \<Rightarrow> py_error + real" where
  "py_min_seq [] = Inl ValueError"
| "py_min_seq (x # xs) = Inr (foldl (\<lambda>m y. if y < m then y else m) x xs)"

definition lower_mm :: "camera_range list \<Rightarrow> py_error + real" where
  "lower_mm cams = py_max_seq (map min_mm cams)"

definition upper_mm :: "camera_range list \<Rightarrow> py_error + real" where
  "upper_mm cams = py_min_seq (map max_mm cams)"

text \<open>The final message: \<^verbatim>\<open>st.success\<close> with the two bounds in centimetres (the values
  handed to the one-decimal format), or \<^verbatim>\<open>st.error\<close>.\<close>

datatype message = Success real real | NoOverlap

definition results :: "camera_range list \<Rightarrow> py_error + message" where
  "results cams =
     bind_err (lower_mm cams) (\<lambda>lo.
       bind_err (upper_mm cams) (\<lambda>up.
         Inr (if lo \<le> up then Success (lo / 10) (up / 10) else NoOverlap)))"

definition app :: "environment \<Rightarrow> camera_spec list \<Rightarrow> py_error + message" where
  "app env specs = bind_err (cameras env specs) results"

text \<open>The near bound of one iteration's outcome, the exception kept.\<close>

definition near_of :: "py_error + camera_range \<Rightarrow> py_error + real" where
  "near_of res = bind_err res (\<lambda>r. Inr (min_mm r))"

subsection \<open>What the widgets enforce\<close>

definition env_ok :: "environment \<Rightarrow> bool" where
  "env_ok env \<longleftrightarrow>
     1 \<le> wall_width_cm env \<and> 1 \<le> max_room_dist_cm env \<and>
     0 \<le> min_chart_fraction env \<and> min_chart_fraction env \<le> 1"

subsection \<open>The widgets' default values\<close>

definition default_env :: environment where
  "default_env =
     \<lparr>chart = A4, wall_width_cm = 300, max_room_dist_cm = 200, min_chart_fraction = 0.1\<rparr>"

definition default_camera :: camera_spec where
  "default_camera =
     \<lparr>cam_name = ''Camera 1'', h_pixels = 3848, v_pixels = 2160,
      sensor_mode = SensorWidthMM 7.696, lens_mode = FocalLengthMM 3\<rparr>"

subsection \<open>The distance formulas as the specification words them\<close>

text \<open>Section 4.2 of the specification: the near distance. The field is in centimetres
  (the threshold is 55 pixels per centimetre) and the sensor width in millimetres, so the
  magnification converts the field to millimetres.\<close>

definition spec_min_horizontal_field :: "int \<Rightarrow> real" where
  "spec_min_horizontal_field h = real_of_int h / 55"

definition spec_near_magnification :: "int \<Rightarrow> real \<Rightarrow> real" where
  "spec_near_magnification h sw = sw / (spec_min_horizontal_field h * 10)"

definition spec_min_distance :: "int \<Rightarrow> real \<Rightarrow> real \<Rightarrow> real" where
  "spec_min_distance h sw f =
     (if spec_near_magnification h sw = 0 then 0
      else f / spec_near_magnification h sw + f)"

text \<open>Section 4.3 of the specification: the far distance, capped by the room.\<close>

definition spec_max_field_from_chart :: "real \<Rightarrow> real \<Rightarrow> py_float" where
  "spec_max_field_from_chart cw fr = (if fr = 0 then Inf else Finite (cw / fr))"

definition spec_max_field :: "real \<Rightarrow> real \<Rightarrow> real \<Rightarrow> real" where
  "spec_max_field wall cw fr =
     (case spec_max_field_from_chart cw fr of Inf \<Rightarrow> wall | Finite x \<Rightarrow> min wall x)"

definition spec_far_magnification :: "real \<Rightarrow> real \<Rightarrow> real" where
  "spec_far_magnification sw field = sw / (field * 10)"

definition spec_max_distance ::
  "real \<Rightarrow> real \<Rightarrow> real \<Rightarrow> real \<Rightarrow> real \<Rightarrow> real \<Rightarrow> real" where
  "spec_max_distance cw wall fr room sw f =
     min (f / spec_far_magnification sw (spec_max_field wall cw fr) + f) (room * 10)"

subsection \<open>Line 89 in binary64 arithmetic\<close>

text \<open>
  The exact reading of line 89 in \<open>lens\<close> cannot underflow. Here the same line is read
  with the rounding of IEEE 754 binary64, round to nearest with ties to even: a result
  below \<open>1 / 2 ^ 1022\<close> in size is rounded to a multiple of \<open>1 / 2 ^ 1074\<close>, any other to
  53 significant bits. Overflow to infinity is not modelled. \<^verbatim>\<open>math.radians\<close> multiplies
  by the double nearest to \<open>pi / 180\<close>, and \<^verbatim>\<open>math.tan\<close> is taken to return the rounded
  tangent.
\<close>

definition quantum :: "real \<Rightarrow> real" where
  "quantum x =
     (if \<bar>x\<bar> < 1 / 2 ^ 1022 then 1 / 2 ^ 1074
      else 2 powr (real_of_int \<lfloor>log 2 \<bar>x\<bar>\<rfloor> - 52))"

definition round_half_even :: "real \<Rightarrow> int" where
  "round_half_even y =
     (let n = \<lfloor>y\<rfloor>
      in if y - real_of_int n < 1 / 2 then n
         else if 1 / 2 < y - real_of_int n then n + 1
         else if even n then n else n + 1)"

definition binary64 :: "real \<Rightarrow> real" where
  "binary64 x = quantum x * real_of_int (round_half_even (x / quantum x))"

definition degToRad :: real where
  "degToRad = 5030569068109113 / 288230376151711744"

definition focal_length_mm_binary64 :: "real \<Rightarrow> real \<Rightarrow> py_error + real" where
  "focal_length_mm_binary64 sensor_diag dfov_deg =
     (if dfov_deg \<noteq> 0
      then bind_err
             (py_div (binary64 (sensor_diag / 2))
                (binary64 (tan (binary64 (binary64 (dfov_deg / 2) * degToRad)))))
             (\<lambda>q. Inr (binary64 q))
      else Inr 0)"

section \<open>Basic facts\<close>

lemma bind_err_Inr [simp]: "bind_err (Inr x) k = k x"
  by (simp add: bind_err_def)

lemma bind_err_Inl [simp]: "bind_err (Inl e) k = Inl e"
  by (simp add: bind_err_def)

lemma py_div_nonzero [simp]: "b \<noteq> 0 \<Longrightarrow> py_div a b = Inr (a / b)"
  by (simp add: py_div_def)

lemma py_div_zero [simp]: "py_div a 0 = Inl ZeroDivisionError"
  by (simp add: py_div_def)

lemma foldl_max_eq: "foldl (\<lambda>m y. if y > m then y else m) x xs = Max (insert x (set xs))"
proof (induction xs arbitrary: x)
  case Nil
  show ?case by simp
next
  case (Cons y ys)
  have "Max (insert (max x y) (set ys)) = Max (insert x (insert y (set ys)))"
    by (cases "set ys = {}") (simp_all add: Max_insert max.assoc)
  moreover have "(if y > x then y else x) = max x y"
    by (auto simp: max_def)
  ultimately show ?case
    using Cons.IH [of "max x y"] by simp
qed

lemma foldl_min_eq: "foldl (\<lambda>m y. if y < m then y else m) x xs = Min (insert x (set xs))"
proof (induction xs arbitrary: x)
  case Nil
  show ?case by simp
next
  case (Cons y ys)
  have "Min (insert (min x y) (set ys)) = Min (insert x (insert y (set ys)))"
    by (cases "set ys = {}") (simp_all add: Min_insert min.assoc)
  moreover have "(if y < x then y else x) = min x y"
    by (auto simp: min_def)
  ultimately show ?case
    using Cons.IH [of "min x y"] by simp
qed

lemma lower_mm_Max: "cams \<noteq> [] \<Longrightarrow> lower_mm cams = Inr (Max (min_mm ` set cams))"
  by (cases cams) (simp_all add: lower_mm_def foldl_max_eq)

lemma upper_mm_Min: "cams \<noteq> [] \<Longrightarrow> upper_mm cams = Inr (Min (max_mm ` set cams))"
  by (cases cams) (simp_all add: upper_mm_def foldl_min_eq)

subsection \<open>The near and far distances in closed form\<close>

lemma hfov_min_mm_pos: "1 \<le> h \<Longrightarrow> 0 < hfov_min_mm h"
  by (simp add: hfov_min_mm_def hfov_min_cm_def PIXELS_PER_CM_def)

lemma mag_min_eq: "1 \<le> h \<Longrightarrow> mag_min h sw = Inr (sw / hfov_min_mm h)"
  using hfov_min_mm_pos [of h] by (simp add: mag_min_def)

lemma min_dist_mm_eq:
  "1 \<le> h \<Longrightarrow> min_dist_mm h sw f =
     Inr (if sw = 0 then 0 else f / (sw / hfov_min_mm h) + f)"
  using hfov_min_mm_pos [of h] by (simp add: min_dist_mm_def mag_min_eq)

lemma min_dist_mm_total: "\<exists>d. min_dist_mm h sw f = Inr d"
  by (simp add: min_dist_mm_def mag_min_def)

lemma hfov_max_cm_eq:
  "hfov_max_cm cw wall fr = Inr (if fr = 0 then wall else min wall (cw / fr))"
  by (auto simp add: hfov_max_cm_def hfov_max_chart_cm_def min_def)

lemma hfov_max_mm_eq:
  "hfov_max_mm cw wall fr = Inr ((if fr = 0 then wall else min wall (cw / fr)) * 10)"
  by (simp add: hfov_max_mm_def hfov_max_cm_eq)

lemma mag_max_total: "\<exists>m. mag_max cw wall fr sw = Inr m"
  by (simp add: mag_max_def hfov_max_mm_eq)

lemma max_dist_uncapped_total: "\<exists>d. max_dist_uncapped cw wall fr sw f = Inr d"
  using mag_max_total [of cw wall fr sw]
  by (auto simp add: max_dist_uncapped_def)

lemma max_dist_mm_total: "\<exists>d. max_dist_mm cw wall fr room sw f = Inr d"
  using max_dist_uncapped_total [of cw wall fr sw f]
  by (auto simp add: max_dist_mm_def)

lemma chart_width_cm_pos: "0 < chart_width_cm opt"
  by (cases opt) (simp_all add: chart_width_cm_def)

lemma far_field_pos:
  "0 < cw \<Longrightarrow> 1 \<le> wall \<Longrightarrow> 0 \<le> fr \<Longrightarrow>
   0 < (if fr = 0 then wall else min wall (cw / fr :: real))"
proof (cases "fr = 0")
  case True
  assume "1 \<le> wall"
  with True show ?thesis by simp
next
  case False
  assume "0 < cw" "1 \<le> wall" "0 \<le> fr"
  with False have "0 < cw / fr" "0 < wall" by simp_all
  with False show ?thesis by simp
qed

lemma mag_max_eq:
  assumes "0 < cw" "1 \<le> wall" "0 \<le> fr"
  shows "mag_max cw wall fr sw =
     Inr (sw / ((if fr = 0 then wall else min wall (cw / fr)) * 10))"
  using far_field_pos [OF assms] by (simp add: mag_max_def hfov_max_mm_eq)

lemma max_dist_uncapped_eq:
  assumes "0 < cw" "1 \<le> wall" "0 \<le> fr"
  shows "max_dist_uncapped cw wall fr sw f =
     Inr (if sw = 0 then 0
          else f / (sw / ((if fr = 0 then wall else min wall (cw / fr)) * 10)) + f)"
  using far_field_pos [OF assms] by (simp add: max_dist_uncapped_def mag_max_eq [OF assms])

lemma max_dist_mm_eq:
  assumes "0 < cw" "1 \<le> wall" "0 \<le> fr"
  shows "max_dist_mm cw wall fr room sw f =
     Inr (min (if sw = 0 then 0
               else f / (sw / ((if fr = 0 then wall else min wall (cw / fr)) * 10)) + f)
              (room * 10))"
  by (auto simp add: max_dist_mm_def max_dist_uncapped_eq [OF assms] min_def)

lemma camera_body_InrI:
  assumes "sensor (h_pixels c) (sensor_mode c) = Inr (sw, ps)"
    and "lens (sensor_diag_mm sw (sensor_height_mm (v_pixels c) ps)) (lens_mode c) = Inr (fl, dfov)"
    and "min_dist_mm (h_pixels c) sw fl = Inr mn"
    and "max_dist_mm (chart_width_cm (chart env)) (wall_width_cm env)
           (min_chart_fraction env) (max_room_dist_cm env) sw fl = Inr mx"
  shows "camera_body env c =
     Inr \<lparr>d_sensor_width_mm = sw, d_pixel_size_um = ps,
          d_sensor_height_mm = sensor_height_mm (v_pixels c) ps,
          d_sensor_diag_mm = sensor_diag_mm sw (sensor_height_mm (v_pixels c) ps),
          d_focal_length_mm = fl, d_dfov_deg = dfov,
          d_range = \<lparr>name = cam_name c, min_mm = mn, max_mm = mx\<rparr>\<rparr>"
  using assms by (simp add: camera_body_def Let_def)

lemma camera_body_InrD:
  assumes "camera_body env c = Inr d"
  shows "sensor (h_pixels c) (sensor_mode c) = Inr (d_sensor_width_mm d, d_pixel_size_um d)"
    and "d_sensor_height_mm d = sensor_height_mm (v_pixels c) (d_pixel_size_um d)"
    and "d_sensor_diag_mm d = sensor_diag_mm (d_sensor_width_mm d) (d_sensor_height_mm d)"
    and "lens (d_sensor_diag_mm d) (lens_mode c) = Inr (d_focal_length_mm d, d_dfov_deg d)"
    and "min_dist_mm (h_pixels c) (d_sensor_width_mm d) (d_focal_length_mm d) =
           Inr (min_mm (d_range d))"
    and "max_dist_mm (chart_width_cm (chart env)) (wall_width_cm env)
           (min_chart_fraction env) (max_room_dist_cm env) (d_sensor_width_mm d)
           (d_focal_length_mm d) = Inr (max_mm (d_range d))"
    and "name (d_range d) = cam_name c"
  using assms
  by (auto simp add: camera_body_def bind_err_def Let_def split: sum.splits prod.splits)

lemma camera_InrI:
  assumes "sensor (h_pixels c) (sensor_mode c) = Inr (sw, ps)"
    and "lens (sensor_diag_mm sw (sensor_height_mm (v_pixels c) ps)) (lens_mode c) = Inr (fl, dfov)"
    and "min_dist_mm (h_pixels c) sw fl = Inr mn"
    and "max_dist_mm (chart_width_cm (chart env)) (wall_width_cm env)
           (min_chart_fraction env) (max_room_dist_cm env) sw fl = Inr mx"
  shows "camera env c = Inr \<lparr>name = cam_name c, min_mm = mn, max_mm = mx\<rparr>"
  by (simp add: camera_def camera_body_InrI [OF assms])

lemma max_dist_mm_not_Inl: "max_dist_mm cw wall fr room sw f \<noteq> Inl e"
  using max_dist_mm_total [of cw wall fr room sw f] by auto

lemma min_dist_mm_not_Inl: "min_dist_mm h sw f \<noteq> Inl e"
  using min_dist_mm_total [of h sw f] by auto

lemma tan_half_angle_neg:
  assumes "180 < a" "a < 360"
  shows "tan (radians (a / 2)) < 0"
proof -
  let ?x = "radians (a / 2) - pi"
  have "- pi / 2 < ?x" using assms pi_gt_zero by (simp add: radians_def field_simps)
  moreover have "?x < 0" using assms pi_gt_zero by (simp add: radians_def field_simps)
  ultimately have "tan ?x < 0" by (rule tan_less_zero)
  moreover have "tan (?x + pi) = tan ?x" by (rule tan_periodic_pi)
  ultimately show ?thesis by simp
qed

lemma sensor_diag_mm_pos: "0 < sw \<Longrightarrow> 0 < sensor_diag_mm sw sh"
proof -
  assume "0 < sw"
  then have "0 < sw\<^sup>2" by simp
  moreover have "0 \<le> sh\<^sup>2" by simp
  ultimately have "0 < sw\<^sup>2 + sh\<^sup>2" by linarith
  then show ?thesis by (simp add: sensor_diag_mm_def hypot_def)
qed

section \<open>The cross-camera reducer\<close>

text \<open>
  Claim C1. For a non-empty list of per-camera ranges, \<open>lower_mm\<close> is the maximum of the
  cameras' \<open>min_mm\<close> and \<open>upper_mm\<close> the minimum of their \<open>max_mm\<close>; the script reports
  the common range from lower to upper (in centimetres) exactly when lower is at most
  upper, and the no-overlap message otherwise. For a single camera the two bounds are
  that camera's own \<open>min_mm\<close> and \<open>max_mm\<close>, so a reported range is the camera's own.
\<close>

theorem reducer_common_range:
  assumes "cams \<noteq> []"
  shows "lower_mm cams = Inr (Max (min_mm ` set cams)) \<and>
         upper_mm cams = Inr (Min (max_mm ` set cams)) \<and>
         results cams =
           Inr (if Max (min_mm ` set cams) \<le> Min (max_mm ` set cams)
                then Success (Max (min_mm ` set cams) / 10) (Min (max_mm ` set cams) / 10)
                else NoOverlap) \<and>
         lower_mm [c] = Inr (min_mm c) \<and> upper_mm [c] = Inr (max_mm c) \<and>
         results [c] =
           Inr (if min_mm c \<le> max_mm c then Success (min_mm c / 10) (max_mm c / 10)
                else NoOverlap)"
proof -
  have lo: "lower_mm cams = Inr (Max (min_mm ` set cams))"
    using assms by (rule lower_mm_Max)
  have up: "upper_mm cams = Inr (Min (max_mm ` set cams))"
    using assms by (rule upper_mm_Min)
  have res: "results cams =
      Inr (if Max (min_mm ` set cams) \<le> Min (max_mm ` set cams)
           then Success (Max (min_mm ` set cams) / 10) (Min (max_mm ` set cams) / 10)
           else NoOverlap)"
    by (simp add: results_def lo up)
  have one: "lower_mm [c] = Inr (min_mm c)" "upper_mm [c] = Inr (max_mm c)"
    by (simp_all add: lower_mm_def upper_mm_def)
  have res1: "results [c] =
      Inr (if min_mm c \<le> max_mm c then Success (min_mm c / 10) (max_mm c / 10)
           else NoOverlap)"
    by (simp add: results_def one)
  from lo up res one res1 show ?thesis by simp
qed

theorem reducer_common_range_witness:
  "[\<lparr>name = ''A'', min_mm = 200, max_mm = 800\<rparr>,
    \<lparr>name = ''B'', min_mm = 300, max_mm = 700\<rparr>] \<noteq> [] \<and>
   results [\<lparr>name = ''A'', min_mm = 200, max_mm = 800\<rparr>,
            \<lparr>name = ''B'', min_mm = 300, max_mm = 700\<rparr>] = Inr (Success 30 70) \<and>
   results [\<lparr>name = ''C'', min_mm = 900, max_mm = 500\<rparr>] = Inr NoOverlap"
  using reducer_common_range
    [of "[\<lparr>name = ''A'', min_mm = 200, max_mm = 800\<rparr>,
          \<lparr>name = ''B'', min_mm = 300, max_mm = 700\<rparr>]"
        "\<lparr>name = ''C'', min_mm = 900, max_mm = 500\<rparr>"]
  by simp

section \<open>The near distance\<close>

text \<open>
  Claim C3. For every camera (the widget gives \<open>h_pixels \<ge> 1\<close>) the near bound is
  computed as the specification words it: the minimum horizontal field is
  \<open>h_pixels / 55\<close> centimetres, the magnification is the sensor width over that field
  in millimetres, and the minimum distance is \<open>focal_length / magnification +
  focal_length\<close>, or \<open>0\<close> when the magnification is \<open>0\<close>.
\<close>

theorem near_distance_formula:
  assumes "1 \<le> h"
  shows "PIXELS_PER_CM = 55 \<and>
         hfov_min_cm h = spec_min_horizontal_field h \<and>
         mag_min h sw = Inr (spec_near_magnification h sw) \<and>
         min_dist_mm h sw f = Inr (spec_min_distance h sw f)"
proof -
  have field: "hfov_min_cm h = spec_min_horizontal_field h"
    by (simp add: hfov_min_cm_def spec_min_horizontal_field_def PIXELS_PER_CM_def)
  have mm: "hfov_min_mm h = spec_min_horizontal_field h * 10"
    by (simp add: hfov_min_mm_def field)
  have pos: "0 < spec_min_horizontal_field h * 10"
    using hfov_min_mm_pos [OF assms] by (simp add: mm)
  have mag: "mag_min h sw = Inr (spec_near_magnification h sw)"
    by (simp add: mag_min_eq [OF assms] mm spec_near_magnification_def)
  have zero: "spec_near_magnification h sw = 0 \<longleftrightarrow> sw = 0"
    using pos by (simp add: spec_near_magnification_def)
  have "min_dist_mm h sw f = Inr (spec_min_distance h sw f)"
    by (simp add: min_dist_mm_eq [OF assms] spec_min_distance_def zero)
       (simp add: spec_near_magnification_def mm)
  with field mag show ?thesis by (simp add: PIXELS_PER_CM_def)
qed

theorem near_distance_formula_witness:
  "(1::int) \<le> 3848 \<and> min_dist_mm 3848 7.696 3 = Inr (3033 / 11)"
  using near_distance_formula [of 3848 "7.696" 3]
  by (simp add: spec_min_distance_def spec_near_magnification_def
      spec_min_horizontal_field_def)

section \<open>The far distance\<close>

text \<open>
  Claim C4. For every camera with a non-zero magnification (sensor width not \<open>0\<close>; the
  zero case is the guard of claim C6) and an environment within the widgets' bounds, the
  far bound is computed as the specification words it: the chart field is
  \<open>chart_width / min_chart_fraction\<close>, infinite when the fraction is \<open>0\<close>; the
  maximum field is the smaller of the wall width and the chart field; the magnification
  is the sensor width over that field; the maximum distance is
  \<open>focal_length / magnification + focal_length\<close>, capped at the room distance. With
  fraction \<open>0\<close> the result is a function of wall width and room distance only, whatever
  the chart.
\<close>

theorem far_distance_formula:
  assumes "1 \<le> wall" "0 \<le> fr" "sw \<noteq> 0"
  shows "hfov_max_chart_cm (chart_width_cm opt) fr =
           Inr (spec_max_field_from_chart (chart_width_cm opt) fr) \<and>
         hfov_max_cm (chart_width_cm opt) wall fr =
           Inr (spec_max_field wall (chart_width_cm opt) fr) \<and>
         mag_max (chart_width_cm opt) wall fr sw =
           Inr (spec_far_magnification sw (spec_max_field wall (chart_width_cm opt) fr)) \<and>
         max_dist_mm (chart_width_cm opt) wall fr room sw f =
           Inr (spec_max_distance (chart_width_cm opt) wall fr room sw f) \<and>
         max_dist_mm (chart_width_cm opt) wall 0 room sw f =
           Inr (min (f / (sw / (wall * 10)) + f) (room * 10))"
proof -
  let ?cw = "chart_width_cm opt"
  have cw: "0 < ?cw" by (rule chart_width_cm_pos)
  have c1: "hfov_max_chart_cm ?cw fr = Inr (spec_max_field_from_chart ?cw fr)"
    by (simp add: hfov_max_chart_cm_def spec_max_field_from_chart_def)
  have field: "spec_max_field wall ?cw fr = (if fr = 0 then wall else min wall (?cw / fr))"
    by (simp add: spec_max_field_def spec_max_field_from_chart_def)
  have c2: "hfov_max_cm ?cw wall fr = Inr (spec_max_field wall ?cw fr)"
    by (simp only: hfov_max_cm_eq field)
  have c3: "mag_max ?cw wall fr sw = Inr (spec_far_magnification sw (spec_max_field wall ?cw fr))"
    by (simp only: mag_max_eq [OF cw assms(1,2)] field spec_far_magnification_def)
  have c4: "max_dist_mm ?cw wall fr room sw f = Inr (spec_max_distance ?cw wall fr room sw f)"
    using assms(3)
    by (simp add: max_dist_mm_eq [OF cw assms(1,2)] spec_max_distance_def
        spec_far_magnification_def field)
  have c5: "max_dist_mm ?cw wall 0 room sw f =
      Inr (min (f / (sw / (wall * 10)) + f) (room * 10))"
    using assms(3) max_dist_mm_eq [OF cw assms(1), of 0 room sw f] by simp
  from c1 c2 c3 c4 c5 show ?thesis by simp
qed

theorem far_distance_formula_witness:
  "(1::real) \<le> 300 \<and> (0::real) \<le> 0.1 \<and> (7.696::real) \<noteq> 0 \<and>
   max_dist_mm (chart_width_cm A4) 300 0.1 200 7.696 3 = Inr (395193 / 481) \<and>
   max_dist_mm (chart_width_cm A4) 300 0 200 7.696 3 = Inr (563943 / 481)"
  using far_distance_formula [of 300 "0.1" "7.696" A4 200 3]
  by (simp add: spec_max_distance_def spec_far_magnification_def spec_max_field_def
      spec_max_field_from_chart_def chart_width_cm_def)

section \<open>Sensor and lens normalisation\<close>

lemma radians_half_degrees: "radians (degrees (2 * x) / 2) = x"
  by (simp add: radians_def degrees_def)

text \<open>
  Claim C5. Round trip: for positive \<open>h_pixels\<close> and a positive pixel pitch, deriving
  the sensor width from the pitch (pixel-size mode) and feeding that width back
  (sensor-width mode) returns the original pitch; for a positive sensor diagonal and a
  positive focal length, deriving the diagonal field of view (focal-length mode) and
  feeding that angle back (field-of-view mode) returns the original focal length. Over
  the reals both are exact.
\<close>

theorem normalizer_round_trip:
  assumes "0 < h" "0 < p" "0 < sd" "0 < f"
  shows "bind_err (sensor h (PixelSizeUM p))
           (\<lambda>(w, _). bind_err (sensor h (SensorWidthMM w)) (\<lambda>(_, p'). Inr p')) = Inr p \<and>
         bind_err (lens sd (FocalLengthMM f))
           (\<lambda>(_, a). bind_err (lens sd (DiagonalFOVDeg a)) (\<lambda>(f', _). Inr f')) = Inr f"
proof -
  have h: "real_of_int h \<noteq> 0" using assms(1) by simp
  have pitch: "bind_err (sensor h (PixelSizeUM p))
      (\<lambda>(w, _). bind_err (sensor h (SensorWidthMM w)) (\<lambda>(_, p'). Inr p')) = Inr p"
    using h by simp
  let ?q = "sd / 2 / f"
  have q: "0 < ?q" using assms(3,4) by simp
  have a: "degrees (2 * arctan ?q) \<noteq> 0"
    using assms(3,4) by (simp add: degrees_def)
  have t: "tan (radians (degrees (2 * arctan ?q) / 2)) = ?q"
    by (simp only: radians_half_degrees tan_arctan)
  have undo: "sd / 2 / ?q = f" using assms(3,4) by simp
  have q0: "?q \<noteq> 0" using assms(3,4) by simp
  have "py_div (sd / 2) (tan (radians (degrees (2 * arctan ?q) / 2))) = Inr f"
    by (simp only: t py_div_nonzero [OF q0] undo)
  then have "lens sd (DiagonalFOVDeg (degrees (2 * arctan ?q))) =
      Inr (f, degrees (2 * arctan ?q))"
    using a by (simp only: lens.simps bind_err_Inr simp_thms if_True if_False)
  moreover have "lens sd (FocalLengthMM f) = Inr (f, degrees (2 * arctan ?q))"
    using assms(4) by simp
  ultimately have "bind_err (lens sd (FocalLengthMM f))
      (\<lambda>(_, a). bind_err (lens sd (DiagonalFOVDeg a)) (\<lambda>(f', _). Inr f')) = Inr f"
    by (simp del: lens.simps)
  with pitch show ?thesis by simp
qed

theorem normalizer_round_trip_witness:
  "(0::int) < 3848 \<and> (0::real) < 2 \<and> (0::real) < 8 \<and> (0::real) < 3 \<and>
   bind_err (sensor 3848 (PixelSizeUM 2))
     (\<lambda>(w, _). bind_err (sensor 3848 (SensorWidthMM w)) (\<lambda>(_, p'). Inr p')) = Inr 2 \<and>
   bind_err (lens 8 (FocalLengthMM 3))
     (\<lambda>(_, a). bind_err (lens 8 (DiagonalFOVDeg a)) (\<lambda>(f', _). Inr f')) = Inr 3"
  using normalizer_round_trip [of 3848 2 8 3] by simp

section \<open>Degenerate-input guards\<close>

text \<open>
  Claim C6. Whenever the magnification of the near or of the far bound is \<open>0\<close> (a
  sensor width of \<open>0\<close> makes it so), the corresponding distance is \<open>0\<close> and no
  exception is raised; for the far bound the room cap leaves the \<open>0\<close> in place, the
  room distance being non-negative. In the same way a focal length of \<open>0\<close> gives a
  field of view of \<open>0\<close>, and a field-of-view angle of \<open>0\<close> a focal length of
  \<open>0\<close>.
\<close>

theorem zero_guards:
  "(mag_min h sw = Inr 0 \<longrightarrow> min_dist_mm h sw f = Inr 0) \<and>
   (mag_max cw wall fr sw = Inr 0 \<longrightarrow> max_dist_uncapped cw wall fr sw f = Inr 0) \<and>
   (mag_max cw wall fr sw = Inr 0 \<longrightarrow> 0 \<le> room \<longrightarrow>
      max_dist_mm cw wall fr room sw f = Inr 0) \<and>
   mag_min h 0 = Inr 0 \<and> mag_max cw wall fr 0 = Inr 0 \<and>
   lens sd (FocalLengthMM 0) = Inr (0, 0) \<and>
   lens sd (DiagonalFOVDeg 0) = Inr (0, 0)"
proof -
  have near: "mag_min h sw = Inr 0 \<longrightarrow> min_dist_mm h sw f = Inr 0"
    by (simp add: min_dist_mm_def)
  have far: "mag_max cw wall fr sw = Inr 0 \<longrightarrow> max_dist_uncapped cw wall fr sw f = Inr 0"
    by (simp add: max_dist_uncapped_def)
  have cap: "mag_max cw wall fr sw = Inr 0 \<longrightarrow> 0 \<le> room \<longrightarrow>
      max_dist_mm cw wall fr room sw f = Inr 0"
    by (simp add: max_dist_mm_def max_dist_uncapped_def)
  have m1: "mag_min h 0 = Inr 0"
    by (simp add: mag_min_def)
  have m2: "mag_max cw wall fr 0 = Inr 0"
    by (simp add: mag_max_def hfov_max_mm_eq)
  show ?thesis using near far cap m1 m2 by simp
qed

theorem zero_guards_witness:
  "mag_min 3848 0 = Inr 0 \<and> min_dist_mm 3848 0 3 = Inr 0 \<and>
   mag_max 21 300 0.1 0 = Inr 0 \<and> max_dist_uncapped 21 300 0.1 0 3 = Inr 0 \<and>
   (0::real) \<le> 200 \<and> max_dist_mm 21 300 0.1 200 0 3 = Inr 0"
  using zero_guards [of 3848 0 3 21 300 "0.1" 200]
  by simp

section \<open>Ordering of one camera's bounds\<close>

text \<open>
  Claim C2 says that physically sane inputs always give \<open>min_mm \<le> max_mm\<close>. The
  script has no such invariant: with every widget at its default and the room distance at
  its minimum of 1 cm, the near bound is about 275.7 mm and the far bound is capped at
  10 mm.
\<close>

theorem sane_range_counterexample:
  "env_ok (default_env\<lparr>max_room_dist_cm := 1\<rparr>) \<and>
   camera (default_env\<lparr>max_room_dist_cm := 1\<rparr>) default_camera =
     Inr \<lparr>name = ''Camera 1'', min_mm = 3033 / 11, max_mm = 10\<rparr> \<and>
   \<not> (3033 / 11 \<le> (10::real))"
proof -
  have "camera (default_env\<lparr>max_room_dist_cm := 1\<rparr>) default_camera =
     Inr \<lparr>name = ''Camera 1'', min_mm = 3033 / 11, max_mm = 10\<rparr>"
    by (simp add: camera_def camera_body_def default_env_def default_camera_def Let_def
        min_dist_mm_eq max_dist_mm_eq chart_width_cm_def hfov_min_mm_def hfov_min_cm_def
        PIXELS_PER_CM_def)
  then show ?thesis by (simp add: env_ok_def default_env_def)
qed

text \<open>
  Claim C2 as amended. For a camera with \<open>h_pixels \<ge> 1\<close>, a positive sensor width, a
  positive focal length and an environment within the widgets' bounds, the range is
  computed without an exception and the far bound never exceeds the room cap
  \<open>max_room_dist_cm * 10\<close>. The bounds are ordered, \<open>min_mm \<le> max_mm\<close>, exactly when
  the near distance is at most both the far distance before the cap (line 103) and the
  cap; the first of the two holds whenever the near field the script computes
  (\<open>hfov_min_mm\<close>) is at most the far field it computes (\<open>hfov_max_mm\<close>). So the
  bounds are ordered whenever the computed near field is at most the computed far field
  and the near distance is at most the cap, and they are not when the near distance
  exceeds the cap. All comparisons are between values the script itself computes.
\<close>

theorem sane_range_ordered_when:
  assumes "env_ok env" "1 \<le> h_pixels c"
    and "sensor (h_pixels c) (sensor_mode c) = Inr (sw, ps)"
    and "lens (sensor_diag_mm sw (sensor_height_mm (v_pixels c) ps)) (lens_mode c) = Inr (fl, dfov)"
    and "0 < sw" "0 < fl"
  shows "\<exists>r hmax u.
           camera env c = Inr r \<and>
           hfov_max_mm (chart_width_cm (chart env)) (wall_width_cm env)
             (min_chart_fraction env) = Inr hmax \<and>
           max_dist_uncapped (chart_width_cm (chart env)) (wall_width_cm env)
             (min_chart_fraction env) sw fl = Inr u \<and>
           max_mm r \<le> max_room_dist_cm env * 10 \<and>
           (min_mm r \<le> max_mm r \<longleftrightarrow>
              min_mm r \<le> u \<and> min_mm r \<le> max_room_dist_cm env * 10) \<and>
           (hfov_min_mm (h_pixels c) \<le> hmax \<longrightarrow> min_mm r \<le> u) \<and>
           (hfov_min_mm (h_pixels c) \<le> hmax \<longrightarrow> min_mm r \<le> max_room_dist_cm env * 10 \<longrightarrow>
              min_mm r \<le> max_mm r)"
proof -
  let ?a = "hfov_min_mm (h_pixels c)"
  let ?b = "(if min_chart_fraction env = 0 then wall_width_cm env
             else min (wall_width_cm env) (chart_width_cm (chart env) / min_chart_fraction env))
            * 10"
  let ?cap = "max_room_dist_cm env * 10"
  let ?mn = "fl / (sw / ?a) + fl"
  let ?u = "fl / (sw / ?b) + fl"
  let ?mx = "min ?u ?cap"
  have wall: "1 \<le> wall_width_cm env" and fr: "0 \<le> min_chart_fraction env"
    using assms(1) by (simp_all add: env_ok_def)
  have cw: "0 < chart_width_cm (chart env)" by (rule chart_width_cm_pos)
  have hmax: "hfov_max_mm (chart_width_cm (chart env)) (wall_width_cm env)
      (min_chart_fraction env) = Inr ?b"
    by (rule hfov_max_mm_eq)
  have u: "max_dist_uncapped (chart_width_cm (chart env)) (wall_width_cm env)
      (min_chart_fraction env) sw fl = Inr ?u"
    using assms(5) by (simp add: max_dist_uncapped_eq [OF cw wall fr])
  have mn: "min_dist_mm (h_pixels c) sw fl = Inr ?mn"
    using assms(5) by (simp add: min_dist_mm_eq [OF assms(2)])
  have mx: "max_dist_mm (chart_width_cm (chart env)) (wall_width_cm env)
      (min_chart_fraction env) (max_room_dist_cm env) sw fl = Inr ?mx"
    using assms(5) by (simp add: max_dist_mm_eq [OF cw wall fr])
  have cam: "camera env c = Inr \<lparr>name = cam_name c, min_mm = ?mn, max_mm = ?mx\<rparr>"
    by (rule camera_InrI [OF assms(3,4) mn mx])
  have capped: "?mx \<le> ?cap" by (rule min.cobounded2)
  have both: "?mn \<le> ?mx \<longleftrightarrow> ?mn \<le> ?u \<and> ?mn \<le> ?cap"
    by (rule min.bounded_iff)
  have mono: "?mn \<le> ?u" if le: "?a \<le> ?b"
  proof -
    have "fl * ?a \<le> fl * ?b"
      using le assms(6) by (simp only: mult_le_cancel_left_pos)
    then have "fl * ?a / sw \<le> fl * ?b / sw"
      using assms(5) by (simp add: divide_le_cancel)
    then show ?thesis by simp
  qed
  from cam hmax u capped both mono show ?thesis by simp
qed

theorem sane_range_ordered_when_witness:
  "env_ok default_env \<and> 1 \<le> h_pixels default_camera \<and>
   sensor (h_pixels default_camera) (sensor_mode default_camera) = Inr (7.696, 2) \<and>
   lens (sensor_diag_mm 7.696 (sensor_height_mm (v_pixels default_camera) 2))
     (lens_mode default_camera) =
     Inr (3, degrees (2 * arctan (sensor_diag_mm 7.696
            (sensor_height_mm (v_pixels default_camera) 2) / 2 / 3))) \<and>
   (0::real) < 7.696 \<and> (0::real) < 3 \<and>
   camera default_env default_camera =
     Inr \<lparr>name = ''Camera 1'', min_mm = 3033 / 11, max_mm = 395193 / 481\<rparr> \<and>
   hfov_min_mm (h_pixels default_camera) = 7696 / 11 \<and>
   hfov_max_mm (chart_width_cm (chart default_env)) (wall_width_cm default_env)
     (min_chart_fraction default_env) = Inr 2100 \<and>
   (7696 / 11 :: real) \<le> 2100 \<and> (3033 / 11 :: real) \<le> 200 * 10 \<and>
   (3033 / 11 :: real) \<le> 395193 / 481"
proof -
  have e: "env_ok default_env" by (simp add: env_ok_def default_env_def)
  have h: "1 \<le> h_pixels default_camera" by (simp add: default_camera_def)
  have s: "sensor (h_pixels default_camera) (sensor_mode default_camera) = Inr (7.696, 2)"
    by (simp add: default_camera_def)
  have l: "lens (sensor_diag_mm 7.696 (sensor_height_mm (v_pixels default_camera) 2))
     (lens_mode default_camera) =
     Inr (3, degrees (2 * arctan (sensor_diag_mm 7.696
            (sensor_height_mm (v_pixels default_camera) 2) / 2 / 3)))"
    by (simp add: default_camera_def)
  have c: "camera default_env default_camera =
     Inr \<lparr>name = ''Camera 1'', min_mm = 3033 / 11, max_mm = 395193 / 481\<rparr>"
    by (simp add: camera_def camera_body_def default_env_def default_camera_def Let_def
        min_dist_mm_eq max_dist_mm_eq chart_width_cm_def hfov_min_mm_def hfov_min_cm_def
        PIXELS_PER_CM_def)
  have a: "hfov_min_mm (h_pixels default_camera) = 7696 / 11"
    by (simp add: default_camera_def hfov_min_mm_def hfov_min_cm_def PIXELS_PER_CM_def)
  have b: "hfov_max_mm (chart_width_cm (chart default_env)) (wall_width_cm default_env)
     (min_chart_fraction default_env) = Inr 2100"
    by (simp add: hfov_max_mm_eq default_env_def chart_width_cm_def)
  from sane_range_ordered_when [OF e h s l] c a b
  have "(3033 / 11 :: real) \<le> 395193 / 481"
    by (simp add: default_env_def)
  with e h s l c a b show ?thesis by simp
qed

section \<open>Scenario A: the default camera's sensor\<close>

lemma scenario_diag_bounds:
  "8.825 < sensor_diag_mm 7.696 (sensor_height_mm 2160 2) \<and>
   sensor_diag_mm 7.696 (sensor_height_mm 2160 2) < 8.826"
proof -
  have eq: "sensor_diag_mm 7.696 (sensor_height_mm 2160 2) = sqrt 77.890816"
    by (simp add: sensor_diag_mm_def hypot_def sensor_height_mm_def power2_eq_square)
  have "(8.825::real)\<^sup>2 < 77.890816" by (simp add: power2_eq_square)
  then have lo: "8.825 < sqrt 77.890816" by (rule real_less_rsqrt)
  have "(77.890816::real) < 8.826\<^sup>2" by (simp add: power2_eq_square)
  then have hi: "sqrt 77.890816 < 8.826" by (intro real_less_lsqrt) simp_all
  from lo hi show ?thesis by (simp only: eq)
qed

text \<open>
  Claim C8 gives, for 3848 by 2160 pixels on a sensor 7.696 mm wide, a pixel pitch of
  about 2.00 \<mu>m, a height of about 4.32 mm and a diagonal of about 8.72 mm. The
  diagonal the script computes is more than 0.1 mm away from 8.72.
\<close>

theorem scenario_a_counterexample:
  "\<not> \<bar>sensor_diag_mm 7.696 (sensor_height_mm 2160 2) - 8.72\<bar> \<le> 0.1"
proof -
  define d where "d = sensor_diag_mm 7.696 (sensor_height_mm 2160 2)"
  have "8.825 < d" using scenario_diag_bounds unfolding d_def by (rule conjunct1)
  then have "\<not> \<bar>d - 8.72\<bar> \<le> 0.1" by simp
  then show ?thesis unfolding d_def .
qed

text \<open>
  Claim C8 as amended. For 3848 by 2160 pixels on a sensor 7.696 mm wide the pixel pitch
  is 2 \<mu>m, the sensor height 4.32 mm, and the diagonal, the square root of width
  squared plus height squared, is 8.83 mm to two decimals (between 8.825 and 8.826).
\<close>

theorem scenario_a_values:
  "sensor 3848 (SensorWidthMM 7.696) = Inr (7.696, 2) \<and>
   sensor_height_mm 2160 2 = 4.32 \<and>
   sensor_diag_mm x y = sqrt (x\<^sup>2 + y\<^sup>2) \<and>
   \<bar>sensor_diag_mm 7.696 (sensor_height_mm 2160 2) - 8.83\<bar> < 0.005"
proof -
  have pitch: "sensor 3848 (SensorWidthMM 7.696) = Inr (7.696, 2)" by simp
  have hgt: "sensor_height_mm 2160 2 = 4.32" by (simp add: sensor_height_mm_def)
  have hyp: "sensor_diag_mm x y = sqrt (x\<^sup>2 + y\<^sup>2)"
    by (simp add: sensor_diag_mm_def hypot_def)
  define d where "d = sensor_diag_mm 7.696 (sensor_height_mm 2160 2)"
  have "8.825 < d \<and> d < 8.826" using scenario_diag_bounds unfolding d_def .
  then have "\<bar>d - 8.83\<bar> < 0.005" by simp
  then have diag: "\<bar>sensor_diag_mm 7.696 (sensor_height_mm 2160 2) - 8.83\<bar> < 0.005"
    unfolding d_def .
  from pitch hgt hyp diag show ?thesis by (intro conjI)
qed

section \<open>The near bound and the environment\<close>

text \<open>
  Claim C9. Two runs that agree on the camera (pixel counts, sensor definition, lens
  definition) and differ in the environment (chart, wall width, room distance, chart
  fraction) give the same near bound, or fail with the same exception: the near bound is
  \<open>min_dist_mm\<close> of \<open>h_pixels\<close>, the derived sensor width and the derived focal
  length, with the fixed threshold, and nothing of the environment, the room cap
  included, enters it.
\<close>

theorem near_bound_ignores_environment:
  "near_of (camera env1 c) = near_of (camera env2 c) \<and>
   near_of (camera env1 c) =
     bind_err (sensor (h_pixels c) (sensor_mode c)) (\<lambda>(sw, ps).
       bind_err (lens (sensor_diag_mm sw (sensor_height_mm (v_pixels c) ps)) (lens_mode c))
         (\<lambda>(fl, dfov). min_dist_mm (h_pixels c) sw fl))"
proof -
  have "near_of (camera env c) =
      bind_err (sensor (h_pixels c) (sensor_mode c)) (\<lambda>(sw, ps).
        bind_err (lens (sensor_diag_mm sw (sensor_height_mm (v_pixels c) ps)) (lens_mode c))
          (\<lambda>(fl, dfov). min_dist_mm (h_pixels c) sw fl))" for env
    by (auto simp add: near_of_def camera_def camera_body_def bind_err_def Let_def
        max_dist_mm_not_Inl split: sum.splits prod.splits)
  then show ?thesis by simp
qed

theorem near_bound_ignores_environment_witness:
  "near_of (camera default_env default_camera) = Inr (3033 / 11) \<and>
   near_of (camera \<lparr>chart = Ledger, wall_width_cm = 1, max_room_dist_cm = 1,
                     min_chart_fraction = 1\<rparr> default_camera) = Inr (3033 / 11)"
proof -
  have "near_of (camera default_env default_camera) = Inr (3033 / 11)"
    by (simp add: near_of_def camera_def camera_body_def default_env_def default_camera_def
        Let_def min_dist_mm_eq max_dist_mm_eq chart_width_cm_def hfov_min_mm_def
        hfov_min_cm_def PIXELS_PER_CM_def)
  with near_bound_ignores_environment [of default_env default_camera
      "\<lparr>chart = Ledger, wall_width_cm = 1, max_room_dist_cm = 1, min_chart_fraction = 1\<rparr>"]
  show ?thesis by simp
qed

section \<open>Field-of-view angles beyond 180 degrees\<close>

text \<open>
  Claim C10. The field-of-view input has no upper bound. For every angle strictly between
  180 and 360 degrees, with a positive sensor width (hence a positive diagonal),
  \<open>h_pixels \<ge> 1\<close> and an environment within the widgets' bounds, the derived focal
  length is negative, no exception is raised, and both the near and the far distance of
  that camera are negative.
\<close>

theorem wide_fov_negative_distances:
  assumes "env_ok env" "1 \<le> h_pixels c"
    and "sensor (h_pixels c) (sensor_mode c) = Inr (sw, ps)" "0 < sw"
    and "lens_mode c = DiagonalFOVDeg a" "180 < a" "a < 360"
  shows "\<exists>d. camera_body env c = Inr d \<and> d_dfov_deg d = a \<and> 0 < d_sensor_diag_mm d \<and>
           d_focal_length_mm d < 0 \<and>
           min_mm (d_range d) < 0 \<and> max_mm (d_range d) < 0"
proof -
  let ?sd = "sensor_diag_mm sw (sensor_height_mm (v_pixels c) ps)"
  let ?t = "tan (radians (a / 2))"
  let ?fl = "?sd / 2 / ?t"
  let ?a = "hfov_min_mm (h_pixels c)"
  let ?F = "if min_chart_fraction env = 0 then wall_width_cm env
            else min (wall_width_cm env) (chart_width_cm (chart env) / min_chart_fraction env)"
  let ?mn = "?fl / (sw / ?a) + ?fl"
  let ?mxu = "?fl / (sw / (?F * 10)) + ?fl"
  let ?mx = "min ?mxu (max_room_dist_cm env * 10)"
  have wall: "1 \<le> wall_width_cm env" and fr: "0 \<le> min_chart_fraction env"
    using assms(1) by (simp_all add: env_ok_def)
  have cw: "0 < chart_width_cm (chart env)" by (rule chart_width_cm_pos)
  have sd: "0 < ?sd" using assms(4) by (rule sensor_diag_mm_pos)
  have t: "?t < 0" using assms(6,7) by (rule tan_half_angle_neg)
  have fl: "?fl < 0" using sd t by (simp add: divide_pos_neg)
  have a0: "a \<noteq> 0" using assms(6) by simp
  have t0: "?t \<noteq> 0" using t by simp
  have l: "lens ?sd (lens_mode c) = Inr (?fl, a)"
    using a0 t0 by (simp add: assms(5))
  have mn: "min_dist_mm (h_pixels c) sw ?fl = Inr ?mn"
    using assms(4) by (simp add: min_dist_mm_eq [OF assms(2)])
  have mx: "max_dist_mm (chart_width_cm (chart env)) (wall_width_cm env)
      (min_chart_fraction env) (max_room_dist_cm env) sw ?fl = Inr ?mx"
    using assms(4) by (simp add: max_dist_mm_eq [OF cw wall fr])
  have apos: "0 < ?a" by (rule hfov_min_mm_pos [OF assms(2)])
  have Fpos: "0 < ?F * 10" using far_field_pos [OF cw wall fr] by simp
  have "0 < sw / ?a" using assms(4) apos by simp
  with fl have "?fl / (sw / ?a) < 0" by (rule divide_neg_pos)
  with fl have mn_neg: "?mn < 0" by linarith
  have "0 < sw / (?F * 10)" using assms(4) Fpos by simp
  with fl have "?fl / (sw / (?F * 10)) < 0" by (rule divide_neg_pos)
  with fl have "?mxu < 0" by linarith
  then have mx_neg: "?mx < 0" by (simp add: min_less_iff_disj)
  from camera_body_InrI [OF assms(3) l mn mx] sd fl mn_neg mx_neg
  show ?thesis by simp
qed

theorem wide_fov_negative_distances_witness:
  "env_ok default_env \<and>
   1 \<le> h_pixels (default_camera\<lparr>lens_mode := DiagonalFOVDeg 270\<rparr>) \<and>
   sensor (h_pixels (default_camera\<lparr>lens_mode := DiagonalFOVDeg 270\<rparr>))
     (sensor_mode (default_camera\<lparr>lens_mode := DiagonalFOVDeg 270\<rparr>)) = Inr (7.696, 2) \<and>
   (0::real) < 7.696 \<and>
   lens_mode (default_camera\<lparr>lens_mode := DiagonalFOVDeg 270\<rparr>) = DiagonalFOVDeg 270 \<and>
   (180::real) < 270 \<and> (270::real) < 360 \<and>
   (\<exists>d. camera_body default_env (default_camera\<lparr>lens_mode := DiagonalFOVDeg 270\<rparr>) = Inr d \<and>
        d_focal_length_mm d < 0 \<and> min_mm (d_range d) < 0 \<and> max_mm (d_range d) < 0)"
proof -
  let ?c = "default_camera\<lparr>lens_mode := DiagonalFOVDeg 270\<rparr>"
  have e: "env_ok default_env" by (simp add: env_ok_def default_env_def)
  have h: "1 \<le> h_pixels ?c" by (simp add: default_camera_def)
  have s: "sensor (h_pixels ?c) (sensor_mode ?c) = Inr (7.696, 2)"
    by (simp add: default_camera_def)
  have l: "lens_mode ?c = DiagonalFOVDeg 270" by simp
  from wide_fov_negative_distances [OF e h s _ l] e h s l
  show ?thesis by auto
qed

section \<open>Exceptions\<close>

text \<open>
  Every division of the script but one is guarded on its own divisor (lines 85, 95, 96,
  102, 103) or divides by a widget value that is at least 1 (line 67) or by a literal.
  Line 89 tests the angle \<open>dfov_deg\<close> and divides by the tangent of half of it. In
  exact arithmetic the script is total wherever that tangent is not \<open>0\<close>.
\<close>

lemma sensor_not_Inl: "1 \<le> h \<Longrightarrow> sensor h s \<noteq> Inl e"
  by (cases s) simp_all

lemma lens_focal_total: "\<exists>fl dfov. lens sd (FocalLengthMM f) = Inr (fl, dfov)"
  by simp

lemma lens_fov_total:
  "a = 0 \<or> tan (radians (a / 2)) \<noteq> 0 \<Longrightarrow> \<exists>fl dfov. lens sd (DiagonalFOVDeg a) = Inr (fl, dfov)"
  by auto

lemma camera_total:
  assumes "1 \<le> h_pixels c"
    and "\<And>a. lens_mode c = DiagonalFOVDeg a \<Longrightarrow> a = 0 \<or> tan (radians (a / 2)) \<noteq> 0"
  shows "\<exists>r. camera env c = Inr r"
proof -
  obtain sw ps where s: "sensor (h_pixels c) (sensor_mode c) = Inr (sw, ps)"
    using sensor_not_Inl [OF assms(1), of "sensor_mode c"]
    by (cases "sensor (h_pixels c) (sensor_mode c)") auto
  let ?sd = "sensor_diag_mm sw (sensor_height_mm (v_pixels c) ps)"
  have "\<exists>fl dfov. lens ?sd (lens_mode c) = Inr (fl, dfov)"
  proof (cases "lens_mode c")
    case (FocalLengthMM f)
    then show ?thesis using lens_focal_total [of ?sd f] by simp
  next
    case (DiagonalFOVDeg a)
    then show ?thesis using lens_fov_total [OF assms(2), of a ?sd] by simp
  qed
  then obtain fl dfov where l: "lens ?sd (lens_mode c) = Inr (fl, dfov)" by blast
  obtain mn where mn: "min_dist_mm (h_pixels c) sw fl = Inr mn"
    using min_dist_mm_total by blast
  obtain mx where mx: "max_dist_mm (chart_width_cm (chart env)) (wall_width_cm env)
      (min_chart_fraction env) (max_room_dist_cm env) sw fl = Inr mx"
    using max_dist_mm_total by blast
  show ?thesis using camera_InrI [OF s l mn mx] by blast
qed

lemma cameras_total:
  assumes "\<And>c. c \<in> set specs \<Longrightarrow> \<exists>r. camera env c = Inr r"
  shows "\<exists>rs. cameras env specs = Inr rs \<and> length rs = length specs"
  using assms
proof (induction specs)
  case Nil
  show ?case by simp
next
  case (Cons c cs)
  obtain r where r: "camera env c = Inr r" using Cons.prems [of c] by auto
  obtain rs where rs: "cameras env cs = Inr rs" "length rs = length cs"
    using Cons.IH Cons.prems by auto
  show ?case by (simp add: r rs)
qed

lemma results_total: "cams \<noteq> [] \<Longrightarrow> \<exists>m. results cams = Inr m"
  by (simp add: results_def lower_mm_Max upper_mm_Min)

lemma app_total:
  assumes "specs \<noteq> []" and "\<And>c. c \<in> set specs \<Longrightarrow> \<exists>r. camera env c = Inr r"
  shows "\<exists>m. app env specs = Inr m"
proof -
  obtain rs where rs: "cameras env specs = Inr rs" "length rs = length specs"
    using cameras_total [OF assms(2)] by blast
  with assms(1) have "rs \<noteq> []" by auto
  then show ?thesis using results_total [of rs] by (simp add: app_def rs)
qed

subsection \<open>Underflow at line 89\<close>

lemma binary64_zero: "binary64 0 = 0"
  by (simp add: binary64_def quantum_def round_half_even_def)

lemma binary64_half_min_subnormal: "binary64 (1 / 2 ^ 1074 / 2) = 0"
proof -
  have small: "\<bar>1 / 2 ^ 1074 / 2 :: real\<bar> < 1 / 2 ^ 1022" by simp
  have q: "quantum (1 / 2 ^ 1074 / 2) = 1 / 2 ^ 1074"
    using small by (simp only: quantum_def if_True)
  have "(1 / 2 ^ 1074 / 2) / (1 / 2 ^ 1074) = (1 / 2 :: real)" by simp
  moreover have "round_half_even (1 / 2) = 0"
    by (simp add: round_half_even_def)
  ultimately show ?thesis by (simp only: binary64_def q of_int_0 mult_zero_right)
qed

text \<open>Rounding gives \<open>0\<close> exactly on underflow, so the binary64 reading of line 89
  raises exactly when the angle is not \<open>0\<close> and the tangent underflows.\<close>

lemma round_half_even_eq_0_iff: "round_half_even y = 0 \<longleftrightarrow> \<bar>y\<bar> \<le> 1 / 2"
proof -
  define n where "n = \<lfloor>y\<rfloor>"
  have lo: "real_of_int n \<le> y" by (simp add: n_def)
  have hi: "y < real_of_int n + 1" unfolding n_def by linarith
  consider "n = 0" | "n = - 1" | "n \<le> - 2" | "1 \<le> n" by linarith
  then show ?thesis
  proof cases
    case 1
    with lo hi show ?thesis
      by (auto simp add: round_half_even_def n_def [symmetric] Let_def)
  next
    case 2
    with lo hi show ?thesis
      by (auto simp add: round_half_even_def n_def [symmetric] Let_def)
  next
    case 3
    then have "real_of_int n \<le> - 2" by linarith
    with 3 lo hi show ?thesis
      by (auto simp add: round_half_even_def n_def [symmetric] Let_def)
  next
    case 4
    then have "1 \<le> real_of_int n" by linarith
    with 4 lo hi show ?thesis
      by (auto simp add: round_half_even_def n_def [symmetric] Let_def)
  qed
qed

lemma quantum_pos: "0 < quantum x"
  by (simp add: quantum_def)

lemma binary64_eq_0_iff: "binary64 x = 0 \<longleftrightarrow> \<bar>x\<bar> \<le> 1 / 2 ^ 1075"
proof (cases "\<bar>x\<bar> < 1 / 2 ^ 1022")
  case True
  then have q: "quantum x = 1 / 2 ^ 1074" by (simp only: quantum_def if_True)
  have "binary64 x = 0 \<longleftrightarrow> \<bar>x / (1 / 2 ^ 1074)\<bar> \<le> 1 / 2"
    by (simp only: binary64_def q round_half_even_eq_0_iff [symmetric]) simp
  also have "\<dots> \<longleftrightarrow> \<bar>x\<bar> \<le> 1 / 2 ^ 1075"
    by (simp add: abs_mult field_simps)
  finally show ?thesis .
next
  case False
  then have big: "1 / 2 ^ 1022 \<le> \<bar>x\<bar>" by simp
  have "(0::real) < 1 / 2 ^ 1022" by simp
  with big have pos: "0 < \<bar>x\<bar>" by linarith
  let ?e = "real_of_int \<lfloor>log 2 \<bar>x\<bar>\<rfloor>"
  have q: "quantum x = 2 powr (?e - 52)" using False by (simp only: quantum_def if_False)
  have "2 powr ?e \<le> 2 powr (log 2 \<bar>x\<bar>)" by (simp add: powr_le_cancel_iff)
  also have "\<dots> = \<bar>x\<bar>" using pos by simp
  finally have "2 powr ?e \<le> \<bar>x\<bar>" .
  then have "2 powr 52 \<le> \<bar>x\<bar> / 2 powr (?e - 52)"
    by (simp add: powr_diff field_simps)
  moreover have "(1::real) < 2 powr 52" by simp
  moreover have "\<bar>x / quantum x\<bar> = \<bar>x\<bar> / 2 powr (?e - 52)"
    by (simp only: q abs_divide) simp
  ultimately have "\<not> \<bar>x / quantum x\<bar> \<le> 1 / 2"
    by linarith
  then have "round_half_even (x / quantum x) \<noteq> 0"
    by (simp add: round_half_even_eq_0_iff)
  then have "binary64 x \<noteq> 0"
    using quantum_pos [of x] by (simp add: binary64_def)
  moreover have "\<not> \<bar>x\<bar> \<le> 1 / 2 ^ 1075"
  proof -
    have "(1 / 2 ^ 1075 :: real) < 1 / 2 ^ 1022" by simp
    with big show ?thesis by linarith
  qed
  ultimately show ?thesis by simp
qed

lemma focal_length_mm_binary64_raises_iff:
  "focal_length_mm_binary64 sd a = Inl ZeroDivisionError \<longleftrightarrow>
     a \<noteq> 0 \<and> \<bar>tan (binary64 (binary64 (a / 2) * degToRad))\<bar> \<le> 1 / 2 ^ 1075"
  by (simp add: focal_length_mm_binary64_def py_div_def binary64_eq_0_iff)

text \<open>
  Claim C7 says that within the widgets' bounds every division is guarded or has a
  non-zero divisor, so that no exception reaches the caller. Line 89 fails it. For
  \<open>dfov_deg = 1 / 2 ^ 1074\<close>, the smallest positive double (printed \<^verbatim>\<open>5e-324\<close>), the
  guard \<^verbatim>\<open>if dfov_deg\<close> passes, \<open>dfov_deg / 2\<close> is a tie between \<open>0\<close> and
  \<open>1 / 2 ^ 1074\<close> and rounds to the even \<open>0\<close>, the tangent of \<open>0\<close> is \<open>0\<close>, and the
  division raises \<^verbatim>\<open>ZeroDivisionError\<close>, whatever the sensor diagonal. The script has
  no handler, so the exception leaves it.
\<close>

theorem fov_underflow_raises:
  "(1 / 2 ^ 1074 :: real) \<noteq> 0 \<and>
   focal_length_mm_binary64 sd (1 / 2 ^ 1074) = Inl ZeroDivisionError"
proof -
  have nz: "(1 / 2 ^ 1074 :: real) \<noteq> 0" by simp
  have "binary64 (tan (binary64 (binary64 (1 / 2 ^ 1074 / 2) * degToRad))) = 0"
    by (simp only: binary64_half_min_subnormal mult_zero_left binary64_zero tan_zero)
  then have "focal_length_mm_binary64 sd (1 / 2 ^ 1074) = Inl ZeroDivisionError"
    using nz by (simp add: focal_length_mm_binary64_def)
  with nz show ?thesis by simp
qed

end
